theory Spec2Isabelle
  imports Main "HOL-Library.Word" "HOL-Library.Signed_Division"
begin

unbundle bit_operations_syntax

section \<open>Values of the program\<close>

text \<open>
  A \<open>Uint8Array\<close> is a list of bytes, a \<open>bigint\<close> is an unbounded integer. A JavaScript
  string is a list of characters; the model covers the code units U+0000 to U+00FF, which
  is every character the codec itself produces or accepts.
\<close>

type_synonym byte = "8 word"
type_synonym Uint8Array = "byte list"
type_synonym bigint = int

text \<open>
  \<open>util/error.ts\<close>: \<open>SRPError\<close> and its subclass \<open>SRPSecurityViolation\<close>, each with its
  message. \<open>SyntaxError\<close> and \<open>RangeError\<close> are the exceptions of the JavaScript runtime that
  the code can provoke: \<open>BigInt(string)\<close> on a string that is no integer literal, and
  \<open>%\<close> of bigints with a zero divisor.
\<close>

datatype error = SRPError string | SRPSecurityViolation string | SyntaxError | RangeError

text \<open>The union type \<open>string | Uint8Array\<close> (also \<open>Hashable\<close> of \<open>util/hash.ts\<close>).\<close>

datatype Hashable = Str string | Bytes Uint8Array

section \<open>Primitives of the JavaScript runtime used by \<open>util/math.ts\<close>\<close>

definition hexDigit :: "nat \<Rightarrow> char" where
  "hexDigit d = ''0123456789abcdef'' ! (d mod 16)"

text \<open>\<open>Number.prototype.toString(16)\<close> on a non-negative integer.\<close>

fun Number_toString16 :: "nat \<Rightarrow> string" where
  "Number_toString16 n =
     (if n < 16 then [hexDigit n] else Number_toString16 (n div 16) @ [hexDigit (n mod 16)])"

declare Number_toString16.simps [simp del]

text \<open>\<open>BigInt.prototype.toString(16)\<close>: a minus sign, then the digits of the magnitude.\<close>

definition BigInt_toString16 :: "bigint \<Rightarrow> string" where
  "BigInt_toString16 n =
     (if n < 0 then CHR ''-'' # Number_toString16 (nat (- n)) else Number_toString16 (nat n))"

definition padStart :: "string \<Rightarrow> nat \<Rightarrow> char \<Rightarrow> string" where
  "padStart s n c = replicate (n - length s) c @ s"

definition hexValue :: "char \<Rightarrow> nat option" where
  "hexValue c =
     (let k = (of_char c :: nat) in
      if 48 \<le> k \<and> k \<le> 57 then Some (k - 48)
      else if 97 \<le> k \<and> k \<le> 102 then Some (k - 87)
      else if 65 \<le> k \<and> k \<le> 70 then Some (k - 55)
      else None)"

text \<open>White space and line terminators of ECMAScript below U+0100.\<close>

definition isWhiteSpace :: "char \<Rightarrow> bool" where
  "isWhiteSpace c = ((of_char c :: nat) \<in> {9, 10, 11, 12, 13, 32, 160})"

fun parseHex :: "string \<Rightarrow> int \<Rightarrow> int option" where
  "parseHex [] acc = Some acc"
| "parseHex (c # cs) acc =
     (case hexValue c of None \<Rightarrow> None | Some d \<Rightarrow> parseHex cs (acc * 16 + int d))"

text \<open>
  \<open>BigInt('0x' + rest)\<close>. Every call of \<open>BigInt\<close> on a string in the code passes a string
  that starts with \<open>0x\<close>. StringToBigInt trims white space (here only trailing white space
  can occur), then wants \<open>0x\<close> followed by at least one hexadecimal digit and nothing else;
  otherwise \<open>BigInt\<close> throws a SyntaxError.
\<close>

definition BigInt_0x :: "string \<Rightarrow> error + bigint" where
  "BigInt_0x rest =
     (let ds = rev (dropWhile isWhiteSpace (rev rest)) in
      if ds = [] then Inl SyntaxError
      else (case parseHex ds 0 of None \<Rightarrow> Inl SyntaxError | Some v \<Rightarrow> Inr v))"

text \<open>
  \<open>parseInt(s, 16)\<close>: leading white space, a sign, an optional \<open>0x\<close>, then the longest
  prefix of hexadecimal digits; \<open>None\<close> is NaN.
\<close>

definition parseInt16 :: "string \<Rightarrow> int option" where
  "parseInt16 s =
     (let t = dropWhile isWhiteSpace s;
          neg = (take 1 t = ''-'');
          t1 = (if take 1 t = ''-'' \<or> take 1 t = ''+'' then drop 1 t else t);
          t2 = (if take 2 t1 = ''0x'' \<or> take 2 t1 = ''0X'' then drop 2 t1 else t1);
          ds = takeWhile (\<lambda>c. hexValue c \<noteq> None) t2
      in if ds = [] then None
         else (case parseHex ds 0 of None \<Rightarrow> None
               | Some v \<Rightarrow> Some (if neg then - v else v)))"

text \<open>Storing a number into a \<open>Uint8Array\<close> element: NaN becomes 0, an integer wraps modulo 256.\<close>

definition toUint8 :: "int option \<Rightarrow> byte" where
  "toUint8 v = (case v of None \<Rightarrow> 0 | Some k \<Rightarrow> word_of_int k)"

definition slice :: "string \<Rightarrow> nat \<Rightarrow> nat \<Rightarrow> string" where
  "slice s i j = take (j - i) (drop i s)"

section \<open>\<open>util/math.ts\<close>\<close>

text \<open>
  \<open>toBigInt\<close>: the loop appends two hexadecimal digits per byte, then \<open>BigInt('0x' + hex)\<close>.
\<close>

definition toBigInt :: "Uint8Array \<Rightarrow> error + bigint" where
  "toBigInt arr =
     BigInt_0x (foldl (\<lambda>hex b. hex @ padStart (Number_toString16 (unat b)) 2 CHR ''0'') [] arr)"

text \<open>
  \<open>toUint8Array\<close> on a bigint: the array has \<open>ceil(hex.length / 2)\<close> elements, and element
  \<open>i / 2\<close> is \<open>parseInt(hex.slice(i, i + 2), 16)\<close> for \<open>i = 0, 2, 4, ...\<close>.
\<close>

definition toUint8Array :: "bigint \<Rightarrow> Uint8Array" where
  "toUint8Array n =
     (let hex = BigInt_toString16 n in
      map (\<lambda>j. toUint8 (parseInt16 (slice hex (2 * j) (2 * j + 2))))
          [0 ..< (length hex + 1) div 2])"

text \<open>\<open>toUint8Array\<close> on a string: \<open>BigInt(n.startsWith('0x') ? n : '0x' + n)\<close> first.\<close>

definition toUint8Array_string :: "string \<Rightarrow> error + Uint8Array" where
  "toUint8Array_string n =
     (case BigInt_0x (if take 2 n = ''0x'' then drop 2 n else n) of
        Inl e \<Rightarrow> Inl e
      | Inr v \<Rightarrow> Inr (toUint8Array v))"

definition toHex :: "Uint8Array \<Rightarrow> string" where
  "toHex arr = foldl (\<lambda>hex b. hex @ padStart (Number_toString16 (unat b)) 2 CHR ''0'') [] arr"

text \<open>\<open>toHex\<close> on a bigint converts it with \<open>toUint8Array\<close> first.\<close>

definition toHex_bigint :: "bigint \<Rightarrow> string" where
  "toHex_bigint n = toHex (toUint8Array n)"

text \<open>
  \<open>powMod\<close>. The \<open>%\<close> of bigints truncates towards zero (\<open>smod\<close>) and throws a RangeError
  when the divisor is zero; \<open>>>\<close> is the arithmetic shift (\<open>drop_bit\<close>). The loop runs until
  \<open>exp\<close> is zero, which a negative \<open>exp\<close> never becomes: \<open>None\<close> is a loop that does not
  return.
\<close>

partial_function (option) powMod_loop ::
  "bigint \<Rightarrow> bigint \<Rightarrow> bigint \<Rightarrow> bigint \<Rightarrow> (error + bigint) option" where
  "powMod_loop result base exp p =
     (if exp = 0 then Some (Inr result)
      else if p = 0 then Some (Inl RangeError)
      else powMod_loop (if exp smod 2 = 1 then (result * base) smod p else result)
                       ((base * base) smod p) (drop_bit 1 exp) p)"

declare powMod_loop.simps [code]

definition powMod :: "bigint \<Rightarrow> bigint \<Rightarrow> bigint \<Rightarrow> (error + bigint) option" where
  "powMod base exp p = powMod_loop 1 base exp p"

text \<open>
  \<open>doesMatch\<close>: the lengths first, then the loop over the index \<open>i\<close>. The loop is
  only reached with arrays of one length, so \<open>b[i]\<close> is always an element of \<open>b\<close>.
\<close>

function doesMatch_loop :: "Uint8Array \<Rightarrow> Uint8Array \<Rightarrow> nat \<Rightarrow> bool" where
  "doesMatch_loop a b i =
     (if i < length a
      then (if a ! i \<noteq> b ! i then False else doesMatch_loop a b (i + 1))
      else True)"
  by pat_completeness auto
termination
  by (relation "measure (\<lambda>(a, b, i). length a - i)") auto

declare doesMatch_loop.simps [simp del]

definition doesMatch :: "Uint8Array \<Rightarrow> Uint8Array \<Rightarrow> bool" where
  "doesMatch a b = (if length a \<noteq> length b then False else doesMatch_loop a b 0)"

section \<open>\<open>util/hash.ts\<close>\<close>

text \<open>
  The digests come from the package hash-wasm, which is no part of the repository:
  \<open>hashBuffer\<close>, applied to the hasher that \<open>createSHA256()\<close>, \<open>createSHA384()\<close>,
  \<open>createSHA512()\<close> or \<open>createSHA3(bits)\<close> returns, is a parameter of the model.
  The values of the enum \<open>Algorithm\<close> are strings at run time.
\<close>

datatype Hasher = SHA256 | SHA384 | SHA512 | SHA3 nat

type_synonym Algorithm = string
type_synonym hashBuffer = "Hasher \<Rightarrow> Uint8Array \<Rightarrow> Uint8Array"

definition SHA_256 :: Algorithm where "SHA_256 = ''SHA-256''"
definition SHA_384 :: Algorithm where "SHA_384 = ''SHA-384''"
definition SHA_512 :: Algorithm where "SHA_512 = ''SHA-512''"
definition SHA3_256 :: Algorithm where "SHA3_256 = ''SHA3-256''"
definition SHA3_384 :: Algorithm where "SHA3_384 = ''SHA3-384''"
definition SHA3_512 :: Algorithm where "SHA3_512 = ''SHA3-512''"

text \<open>\<open>new TextEncoder().encode\<close>: UTF-8, one byte below U+0080 and two bytes up to U+00FF.\<close>

definition TextEncoder_encode :: "string \<Rightarrow> Uint8Array" where
  "TextEncoder_encode str =
     concat (map (\<lambda>c. let k = (of_char c :: nat) in
                        if k < 128 then [of_nat k]
                        else [of_nat (192 + k div 64), of_nat (128 + k mod 64)]) str)"

definition hash :: "hashBuffer \<Rightarrow> Algorithm \<Rightarrow> Hashable list \<Rightarrow> error + Uint8Array" where
  "hash hashBuffer algorithm input =
     (let data = map (\<lambda>i. case i of Str str \<Rightarrow> TextEncoder_encode str | Bytes b \<Rightarrow> b) input;
          arr = concat data
      in if algorithm = SHA_256 then Inr (hashBuffer SHA256 arr)
         else if algorithm = SHA_384 then Inr (hashBuffer SHA384 arr)
         else if algorithm = SHA_512 then Inr (hashBuffer SHA512 arr)
         else if algorithm = SHA3_256 then Inr (hashBuffer (SHA3 256) arr)
         else if algorithm = SHA3_384 then Inr (hashBuffer (SHA3 384) arr)
         else if algorithm = SHA3_512 then Inr (hashBuffer (SHA3 512) arr)
         else Inl (SRPError (''Invalid algorithm '' @ [CHR 0x22] @ algorithm @ [CHR 0x22] @
                '' - available algorithms: SHA-256, SHA-384, SHA-512, SHA3-256, SHA3-384, SHA3-512'')))"

section \<open>\<open>server/setup.ts\<close>: \<open>ServerSetup\<close>\<close>

record ServerSetupConfig =
  config_I :: string
  config_s :: Hashable
  config_v :: Hashable

record ServerSetupResult =
  username :: string
  salt :: string
  verifier :: string

record ServerSetup =
  ss_I :: string
  ss_s :: Uint8Array
  ss_v :: bigint

text \<open>
  The constructor decodes \<open>s\<close> with \<open>toUint8Array\<close> and \<open>v\<close> with \<open>BigInt(`0x${config.v}`)\<close>
  when they are strings, and takes \<open>toBigInt\<close> of \<open>v\<close> when it is a byte array.
\<close>

definition ServerSetup_new :: "ServerSetupConfig \<Rightarrow> error + ServerSetup" where
  "ServerSetup_new config =
     (case (case config_s config of Str str \<Rightarrow> toUint8Array_string str | Bytes b \<Rightarrow> Inr b) of
        Inl e \<Rightarrow> Inl e
      | Inr s \<Rightarrow>
         (case (case config_v config of Str str \<Rightarrow> BigInt_0x str | Bytes b \<Rightarrow> toBigInt b) of
            Inl e \<Rightarrow> Inl e
          | Inr v \<Rightarrow> Inr \<lparr>ss_I = config_I config, ss_s = s, ss_v = v\<rparr>))"

definition getCredentials :: "ServerSetup \<Rightarrow> ServerSetupResult" where
  "getCredentials this =
     \<lparr>username = ss_I this, salt = toHex (ss_s this), verifier = toHex_bigint (ss_v this)\<rparr>"

definition verify :: "ServerSetup \<Rightarrow> error + ServerSetupResult" where
  "verify this =
     (if length (ss_I this) = 0 then Inl (SRPError ''I must not be empty'')
      else if length (ss_s this) = 0 \<or> toBigInt (ss_s this) = Inr 0
        then Inl (SRPSecurityViolation ''s must not be empty or equal zero'')
      else if ss_v this = 0 then Inl (SRPSecurityViolation ''v must not be zero'')
      else Inr (getCredentials this))"

section \<open>\<open>client/authenticate.ts\<close>: \<open>ClientAuthenticate\<close>\<close>

text \<open>
  \<open>util/groups.ts\<close> is not among the sources; a \<open>Group\<close> is the pair of the modulus \<open>N\<close>
  and the generator \<open>g\<close> that the code reads from it.
\<close>

record Group =
  group_N :: bigint
  group_g :: bigint

text \<open>
  The fields of the class. The optional ones (\<open>a?: bigint\<close> and so on) are \<open>None\<close> while
  undefined. The field names carry the prefix \<open>ca_\<close>.
\<close>

record ClientAuthenticate =
  ca_I :: Uint8Array
  ca_p :: Uint8Array
  ca_group :: Group
  ca_algorithm :: Algorithm
  ca_a :: "bigint option"
  ca_A :: "bigint option"
  ca_B :: "bigint option"
  ca_u :: "bigint option"
  ca_s :: "bigint option"
  ca_S :: "bigint option"
  ca_K :: "Uint8Array option"
  ca_M1 :: "Uint8Array option"

record ClientAuthenticateInit =
  raw_A :: Uint8Array
  encoded_A :: string

record ClientAuthenticateResult =
  raw_M1 :: Uint8Array
  encoded_M1 :: string

definition ClientAuthenticate_new ::
  "string \<Rightarrow> string \<Rightarrow> Group \<Rightarrow> Algorithm \<Rightarrow> ClientAuthenticate" where
  "ClientAuthenticate_new config_username config_password config_group config_algorithm =
     \<lparr>ca_I = TextEncoder_encode config_username, ca_p = TextEncoder_encode config_password,
      ca_group = config_group, ca_algorithm = config_algorithm,
      ca_a = None, ca_A = None, ca_B = None, ca_u = None, ca_s = None, ca_S = None,
      ca_K = None, ca_M1 = None\<rparr>"

text \<open>
  \<open>!this.x\<close> on a field of type \<open>bigint | undefined\<close>: true when the field is undefined and
  also when it holds \<open>0n\<close>, which is falsy. On a field of type \<open>Uint8Array | undefined\<close> it
  is true only when the field is undefined.
\<close>

definition falsy :: "bigint option \<Rightarrow> bool" where
  "falsy v = (case v of None \<Rightarrow> True | Some k \<Rightarrow> k = 0)"

text \<open>
  \<open>computeA\<close>: \<open>random(256)\<close> is the entropy source; its 32 bytes are the argument
  \<open>rnd\<close>. The method stores \<open>a\<close> and returns \<open>A\<close>.
\<close>

definition computeA ::
  "Uint8Array \<Rightarrow> ClientAuthenticate \<Rightarrow> ((error + bigint) \<times> ClientAuthenticate) option" where
  "computeA rnd this =
     (case toBigInt rnd of
        Inl e \<Rightarrow> Some (Inl e, this)
      | Inr a \<Rightarrow>
         (let this1 = this\<lparr>ca_a := Some a\<rparr> in
          case powMod (group_g (ca_group this1)) a (group_N (ca_group this1)) of
            None \<Rightarrow> None
          | Some (Inl e) \<Rightarrow> Some (Inl e, this1)
          | Some (Inr A) \<Rightarrow> Some (Inr A, this1)))"

text \<open>
  \<open>init\<close>. Of the returned object the model keeps \<open>raw.A\<close> and \<open>encoded.A\<close>; the field
  \<open>I\<close> (the identity decoded back to text) is left out, no operation reads it.
\<close>

definition init ::
  "Uint8Array \<Rightarrow> ClientAuthenticate \<Rightarrow>
     ((error + ClientAuthenticateInit) \<times> ClientAuthenticate) option" where
  "init rnd this =
     (case computeA rnd this of
        None \<Rightarrow> None
      | Some (Inl e, this1) \<Rightarrow> Some (Inl e, this1)
      | Some (Inr A, this1) \<Rightarrow>
          Some (Inr \<lparr>raw_A = toUint8Array A, encoded_A = toHex (toUint8Array A)\<rparr>,
                this1\<lparr>ca_A := Some A\<rparr>))"

definition computeU :: "hashBuffer \<Rightarrow> ClientAuthenticate \<Rightarrow> error + bigint" where
  "computeU hashBuffer this =
     (if falsy (ca_A this) \<or> falsy (ca_B this)
      then Inl (SRPError ''A and B must be set before computing u'')
      else (case hash hashBuffer (ca_algorithm this)
                   [Bytes (toUint8Array (the (ca_A this))), Bytes (toUint8Array (the (ca_B this)))] of
              Inl e \<Rightarrow> Inl e
            | Inr u \<Rightarrow> toBigInt u))"

definition computeK :: "hashBuffer \<Rightarrow> ClientAuthenticate \<Rightarrow> error + bigint" where
  "computeK hashBuffer this =
     (case hash hashBuffer (ca_algorithm this)
             [Bytes (toUint8Array (group_N (ca_group this))),
              Bytes (toUint8Array (group_g (ca_group this)))] of
        Inl e \<Rightarrow> Inl e
      | Inr k \<Rightarrow> toBigInt k)"

definition computeX :: "hashBuffer \<Rightarrow> ClientAuthenticate \<Rightarrow> error + bigint" where
  "computeX hashBuffer this =
     (if falsy (ca_s this) then Inl (SRPError ''s must be set before computing x'')
      else (case hash hashBuffer (ca_algorithm this) [Bytes (ca_I this), Str '':'', Bytes (ca_p this)] of
              Inl e \<Rightarrow> Inl e
            | Inr identity \<Rightarrow>
               (case hash hashBuffer (ca_algorithm this)
                       [Bytes (toUint8Array (the (ca_s this))), Bytes identity] of
                  Inl e \<Rightarrow> Inl e
                | Inr x \<Rightarrow> toBigInt x)))"

definition computeS :: "hashBuffer \<Rightarrow> ClientAuthenticate \<Rightarrow> (error + bigint) option" where
  "computeS hashBuffer this =
     (if falsy (ca_a this) \<or> falsy (ca_B this) \<or> falsy (ca_u this)
      then Some (Inl (SRPError ''a, B, and u must be set before computing S''))
      else (case computeK hashBuffer this of
              Inl e \<Rightarrow> Some (Inl e)
            | Inr k \<Rightarrow>
               (case computeX hashBuffer this of
                  Inl e \<Rightarrow> Some (Inl e)
                | Inr x \<Rightarrow>
                   (case powMod (group_g (ca_group this)) x (group_N (ca_group this)) of
                      None \<Rightarrow> None
                    | Some (Inl e) \<Rightarrow> Some (Inl e)
                    | Some (Inr gx) \<Rightarrow>
                        powMod (the (ca_B this) - k * gx)
                               (the (ca_a this) + the (ca_u this) * x)
                               (group_N (ca_group this))))))"

text \<open>\<open>if (typeof B === 'string') B = toUint8Array(B)\<close>, as written for \<open>B\<close>, \<open>s\<close> and \<open>M2\<close>.\<close>

definition decode :: "Hashable \<Rightarrow> error + Uint8Array" where
  "decode v = (case v of Str str \<Rightarrow> toUint8Array_string str | Bytes b \<Rightarrow> Inr b)"

definition exchange ::
  "hashBuffer \<Rightarrow> Hashable \<Rightarrow> Hashable \<Rightarrow> ClientAuthenticate \<Rightarrow>
     ((error + unit) \<times> ClientAuthenticate) option" where
  "exchange hashBuffer B s this =
     (if falsy (ca_A this) then Some (Inl (SRPError ''A must be set before exchanging B''), this)
      else (case decode B of Inl e \<Rightarrow> Some (Inl e, this) | Inr Bb \<Rightarrow>
      (case toBigInt Bb of Inl e \<Rightarrow> Some (Inl e, this) | Inr Bv \<Rightarrow>
      (let this1 = this\<lparr>ca_B := Some Bv\<rparr> in
      (case decode s of Inl e \<Rightarrow> Some (Inl e, this1) | Inr sb \<Rightarrow>
      (case toBigInt sb of Inl e \<Rightarrow> Some (Inl e, this1) | Inr sv \<Rightarrow>
      (let this2 = this1\<lparr>ca_s := Some sv\<rparr> in
      (if Bv = 0
       then Some (Inl (SRPError (''Invalid server-supplied public key: B = 0'' @ [CHR 0x0A] @
                   ''This is probably a misconfiguration, but possibly a MitM attack!'')), this2)
       else (case computeU hashBuffer this2 of Inl e \<Rightarrow> Some (Inl e, this2) | Inr u \<Rightarrow>
      (let this3 = this2\<lparr>ca_u := Some u\<rparr> in
      (if u = 0
       then Some (Inl (SRPError (''Invalid keys: u = 0'' @ [CHR 0x0A] @
                   ''This is probably a misconfiguration, but possibly a MitM attack!'')), this3)
       else (case computeS hashBuffer this3 of
               None \<Rightarrow> None
             | Some (Inl e) \<Rightarrow> Some (Inl e, this3)
             | Some (Inr S) \<Rightarrow>
      (let this4 = this3\<lparr>ca_S := Some S\<rparr> in
      (case hash hashBuffer (ca_algorithm this4) [Bytes (toUint8Array S)] of
         Inl e \<Rightarrow> Some (Inl e, this4)
       | Inr K \<Rightarrow> Some (Inr (), this4\<lparr>ca_K := Some K\<rparr>)))))))))))))))"

text \<open>
  \<open>authenticate\<close>. \<open>HX[i] = HN[i] ^ Hg[i]\<close> for every index of \<open>HN\<close>; an index beyond
  \<open>Hg\<close> reads \<open>undefined\<close>, which \<open>^\<close> takes as 0.
\<close>

definition authenticate ::
  "hashBuffer \<Rightarrow> ClientAuthenticate \<Rightarrow> (error + ClientAuthenticateResult) \<times> ClientAuthenticate" where
  "authenticate hashBuffer this =
     (if falsy (ca_s this) \<or> falsy (ca_A this) \<or> falsy (ca_B this) \<or> ca_K this = None
      then (Inl (SRPError ''s, A, B, and K must be set before authenticating''), this)
      else (let N = toUint8Array (group_N (ca_group this));
                g = toUint8Array (group_g (ca_group this));
                s = toUint8Array (the (ca_s this));
                A = toUint8Array (the (ca_A this));
                B = toUint8Array (the (ca_B this))
      in (case hash hashBuffer (ca_algorithm this) [Bytes N] of Inl e \<Rightarrow> (Inl e, this) | Inr HN \<Rightarrow>
         (case hash hashBuffer (ca_algorithm this) [Bytes g] of Inl e \<Rightarrow> (Inl e, this) | Inr Hg \<Rightarrow>
         (let HX = map (\<lambda>i. (HN ! i) XOR (if i < length Hg then Hg ! i else 0)) [0 ..< length HN] in
         (case hash hashBuffer (ca_algorithm this)
                 [Bytes HX, Bytes (ca_I this), Bytes s, Bytes A, Bytes B, Bytes (the (ca_K this))] of
            Inl e \<Rightarrow> (Inl e, this)
          | Inr M1 \<Rightarrow>
              (Inr \<lparr>raw_M1 = M1, encoded_M1 = toHex M1\<rparr>, this\<lparr>ca_M1 := Some M1\<rparr>)))))))"

text \<open>
  \<open>verifyServer\<close>, the documented version of the class (the second copy in the sources
  differs only in throwing a plain \<open>SRPError\<close> in the last line). It changes no field.
\<close>

definition verifyServer :: "hashBuffer \<Rightarrow> Hashable \<Rightarrow> ClientAuthenticate \<Rightarrow> error + unit" where
  "verifyServer hashBuffer M2 this =
     (if falsy (ca_A this) \<or> ca_M1 this = None \<or> ca_K this = None
      then Inl (SRPError ''A, M1, and K must be set before verifying the server'')
      else (let A = toUint8Array (the (ca_A this)) in
      (case hash hashBuffer (ca_algorithm this)
              [Bytes A, Bytes (the (ca_M1 this)), Bytes (the (ca_K this))] of
         Inl e \<Rightarrow> Inl e
       | Inr expected \<Rightarrow>
      (case decode M2 of
         Inl e \<Rightarrow> Inl e
       | Inr M2b \<Rightarrow>
      (if doesMatch expected M2b
       then Inl (SRPSecurityViolation
                  (''Server-supplied M2 does not match the expected value'' @ [CHR 0x0A] @
                   ''This is probably a misconfiguration, but possibly a MitM attack!''))
       else Inr ())))))"

section \<open>\<open>client/setup.ts\<close>: \<open>ClientSetup\<close>\<close>

text \<open>
  The fields of the class, with the prefix \<open>cs_\<close>. The constructor takes the salt of the
  configuration when there is one, and otherwise the bytes \<open>rnd\<close> that
  \<open>random(config.saltLength ?? 192)\<close> returns.
\<close>

record ClientSetup =
  cs_I :: Uint8Array
  cs_p :: Uint8Array
  cs_s :: Uint8Array
  cs_group :: Group
  cs_algorithm :: Algorithm
  cs_x :: "bigint option"
  cs_v :: "bigint option"

record ClientSetupResult =
  raw_v :: Uint8Array
  raw_s :: Uint8Array
  encoded_v :: string
  encoded_s :: string

definition ClientSetup_new ::
  "string \<Rightarrow> string \<Rightarrow> Uint8Array option \<Rightarrow> Uint8Array \<Rightarrow> Group \<Rightarrow> Algorithm \<Rightarrow> ClientSetup" where
  "ClientSetup_new config_username config_password config_salt rnd config_group config_algorithm =
     \<lparr>cs_I = TextEncoder_encode config_username, cs_p = TextEncoder_encode config_password,
      cs_s = (case config_salt of Some b \<Rightarrow> b | None \<Rightarrow> rnd),
      cs_group = config_group, cs_algorithm = config_algorithm,
      cs_x = None, cs_v = None\<rparr>"

text \<open>\<open>ClientSetup.computeX\<close>: the second hash takes the salt bytes \<open>this.s\<close> as they are.\<close>

definition ClientSetup_computeX :: "hashBuffer \<Rightarrow> ClientSetup \<Rightarrow> error + bigint" where
  "ClientSetup_computeX hashBuffer this =
     (case hash hashBuffer (cs_algorithm this) [Bytes (cs_I this), Str '':'', Bytes (cs_p this)] of
        Inl e \<Rightarrow> Inl e
      | Inr identity \<Rightarrow>
         (case hash hashBuffer (cs_algorithm this) [Bytes (cs_s this), Bytes identity] of
            Inl e \<Rightarrow> Inl e
          | Inr x \<Rightarrow> toBigInt x))"

definition ClientSetup_computeV :: "ClientSetup \<Rightarrow> (error + bigint) option" where
  "ClientSetup_computeV this =
     (if falsy (cs_x this) then Some (Inl (SRPError ''X has not been computed yet''))
      else powMod (group_g (cs_group this)) (the (cs_x this)) (group_N (cs_group this)))"

text \<open>
  \<open>ClientSetup.init\<close>. As for \<open>ClientAuthenticate.init\<close>, the field \<open>I\<close> of the returned
  object is left out.
\<close>

definition ClientSetup_init ::
  "hashBuffer \<Rightarrow> ClientSetup \<Rightarrow> ((error + ClientSetupResult) \<times> ClientSetup) option" where
  "ClientSetup_init hashBuffer this =
     (case ClientSetup_computeX hashBuffer this of
        Inl e \<Rightarrow> Some (Inl e, this)
      | Inr x \<Rightarrow>
         (let this1 = this\<lparr>cs_x := Some x\<rparr> in
          (case ClientSetup_computeV this1 of
             None \<Rightarrow> None
           | Some (Inl e) \<Rightarrow> Some (Inl e, this1)
           | Some (Inr v) \<Rightarrow>
               Some (Inr \<lparr>raw_v = toUint8Array v, raw_s = cs_s this1,
                          encoded_v = toHex (toUint8Array v), encoded_s = toHex (cs_s this1)\<rparr>,
                     this1\<lparr>cs_v := Some v\<rparr>))))"

section \<open>A stand-in for the digests\<close>

text \<open>
  To run the code on concrete inputs the parameter \<open>hashBuffer\<close> needs a value. This one
  returns a single byte, 17 plus the sum of the bytes of the buffer, for every hasher.
\<close>

definition sumHashBuffer :: hashBuffer where
  "sumHashBuffer hasher buffer = [foldl (+) 17 buffer]"

text \<open>
  A client over the small group \<open>N = 23\<close>, \<open>g = 5\<close>, before \<open>init\<close> and after \<open>init\<close> has
  drawn the 32 random bytes \<open>00 ... 00 07\<close> (so \<open>a = 7\<close> and \<open>A = 5^7 mod 23 = 17\<close>).
\<close>

definition demoClient :: ClientAuthenticate where
  "demoClient =
     ClientAuthenticate_new ''alice'' ''password123'' \<lparr>group_N = 23, group_g = 5\<rparr> SHA_256"

definition demoInitialized :: ClientAuthenticate where
  "demoInitialized =
     (case init (replicate 31 0 @ [7]) demoClient of
        Some (_, this) \<Rightarrow> this
      | None \<Rightarrow> demoClient)"

text \<open>The same client after \<open>exchange\<close> with \<open>B = 03\<close> and the salt \<open>01 02\<close>, and after \<open>authenticate\<close>.\<close>

definition demoExchanged :: ClientAuthenticate where
  "demoExchanged =
     (case exchange sumHashBuffer (Bytes [3]) (Bytes [1, 2]) demoInitialized of
        Some (_, this) \<Rightarrow> this
      | None \<Rightarrow> demoInitialized)"

definition demoAuthenticated :: ClientAuthenticate where
  "demoAuthenticated = snd (authenticate sumHashBuffer demoExchanged)"

text \<open>The setup of the same user with the salt \<open>01 02\<close>.\<close>

definition demoSetup :: ClientSetup where
  "demoSetup =
     ClientSetup_new ''alice'' ''password123'' (Some [1, 2]) [] \<lparr>group_N = 23, group_g = 5\<rparr> SHA_256"

section \<open>Reference notions\<close>

text \<open>
  The big-endian unsigned value of a byte sequence, written from the specification's words
  (\<open>bytesToInteger\<close>), to compare \<open>toBigInt\<close> with.
\<close>

definition bigEndian :: "Uint8Array \<Rightarrow> int" where
  "bigEndian bs = foldl (\<lambda>acc b. acc * 256 + uint b) 0 bs"

text \<open>The two kinds of error of the specification: a plain \<open>SRPError\<close>, and a security violation.\<close>

definition isProtocolError :: "error + 'a \<Rightarrow> bool" where
  "isProtocolError r = (case r of Inl (SRPError _) \<Rightarrow> True | _ \<Rightarrow> False)"

definition isSecurityViolation :: "error + 'a \<Rightarrow> bool" where
  "isSecurityViolation r = (case r of Inl (SRPSecurityViolation _) \<Rightarrow> True | _ \<Rightarrow> False)"

text \<open>Lower-case hexadecimal text.\<close>

definition isLowerHex :: "string \<Rightarrow> bool" where
  "isLowerHex str = list_all (\<lambda>c. c \<in> set ''0123456789abcdef'') str"

text \<open>
  \<open>Object.values(Algorithm)\<close>, the supported algorithms, and \<open>H\<close>, the digest that \<open>hash\<close>
  returns for one of them.
\<close>

definition algorithms :: "Algorithm list" where
  "algorithms = [SHA_256, SHA_384, SHA_512, SHA3_256, SHA3_384, SHA3_512]"

definition H :: "hashBuffer \<Rightarrow> Algorithm \<Rightarrow> Hashable list \<Rightarrow> Uint8Array" where
  "H hashBuffer algorithm input =
     (case hash hashBuffer algorithm input of Inr digest \<Rightarrow> digest | Inl _ \<Rightarrow> [])"

section \<open>The codec\<close>

lemma hexDigit_table:
  "\<forall>d \<in> set [0 ..< 16]. hexValue (hexDigit d) = Some d \<and> \<not> isWhiteSpace (hexDigit d)
      \<and> hexDigit d \<in> set ''0123456789abcdef''"
  by code_simp

lemma hexValue_hexDigit: "d < 16 \<Longrightarrow> hexValue (hexDigit d) = Some d"
  using hexDigit_table by simp

lemma not_white_hexDigit: "d < 16 \<Longrightarrow> \<not> isWhiteSpace (hexDigit d)"
  using hexDigit_table by simp

lemma hexDigit_lower: "d < 16 \<Longrightarrow> hexDigit d \<in> set ''0123456789abcdef''"
  using hexDigit_table by simp

lemma Number_toString16_small: "n < 16 \<Longrightarrow> Number_toString16 n = [hexDigit n]"
  by (simp add: Number_toString16.simps)

lemma Number_toString16_two:
  "16 \<le> n \<Longrightarrow> n < 256 \<Longrightarrow> Number_toString16 n = [hexDigit (n div 16), hexDigit (n mod 16)]"
  by (subst Number_toString16.simps) (simp add: Number_toString16_small less_mult_imp_div_less)

lemma byte_hex:
  "padStart (Number_toString16 (unat (b::byte))) 2 CHR ''0''
     = [hexDigit (unat b div 16), hexDigit (unat b mod 16)]"
proof (cases "unat b < 16")
  case True
  then show ?thesis
    by (simp add: Number_toString16_small padStart_def hexDigit_def)
next
  case False
  have "unat b < 256" using unsigned_less [of b, where ?'a = nat] by simp
  with False show ?thesis
    by (simp add: Number_toString16_two padStart_def)
qed

lemma foldl_append_concat:
  "foldl (\<lambda>hex b. hex @ f b) acc arr = acc @ concat (map f arr)"
  by (induction arr arbitrary: acc) simp_all

lemma toHex_concat:
  "toHex arr = concat (map (\<lambda>b. [hexDigit (unat b div 16), hexDigit (unat b mod 16)]) arr)"
  by (simp add: toHex_def foldl_append_concat byte_hex)


lemma parseHex_byte:
  "parseHex ([hexDigit (unat (b::byte) div 16), hexDigit (unat b mod 16)] @ cs) acc
     = parseHex cs (acc * 256 + uint b)"
proof -
  have "unat b < 256"
    using unsigned_less [of b, where ?'a = nat] by simp
  then have lt: "unat b div 16 < 16"
    by (simp add: less_mult_imp_div_less)
  have "int (unat b div 16) * 16 + int (unat b mod 16) = uint b"
    by (simp add: zdiv_int zmod_int)
  then have e: "(acc * 16 + int (unat b div 16)) * 16 + int (unat b mod 16) = acc * 256 + uint b"
    by (simp add: algebra_simps)
  have "parseHex ([hexDigit (unat b div 16), hexDigit (unat b mod 16)] @ cs) acc
      = parseHex cs ((acc * 16 + int (unat b div 16)) * 16 + int (unat b mod 16))"
    using lt by (simp add: hexValue_hexDigit)
  then show ?thesis
    by (simp only: e)
qed

lemma parseHex_bytes:
  "parseHex (concat (map (\<lambda>b. [hexDigit (unat (b::byte) div 16), hexDigit (unat b mod 16)]) bs)) acc
     = Some (foldl (\<lambda>acc b. acc * 256 + uint b) acc bs)"
proof (induction bs arbitrary: acc)
  case Nil
  show ?case by simp
next
  case (Cons b bs)
  show ?case
    using parseHex_byte [of b _ acc] Cons.IH by simp
qed

lemma hex_no_trailing_space:
  "rev (dropWhile isWhiteSpace (rev (concat (map (\<lambda>b. [hexDigit (unat (b::byte) div 16), hexDigit (unat b mod 16)]) bs))))
     = concat (map (\<lambda>b. [hexDigit (unat b div 16), hexDigit (unat b mod 16)]) bs)"
proof (cases bs rule: rev_cases)
  case Nil
  then show ?thesis by simp
next
  case (snoc cs c)
  have "\<not> isWhiteSpace (hexDigit (unat c mod 16))"
    by (simp add: not_white_hexDigit)
  with snoc show ?thesis by simp
qed

lemma toBigInt_nonempty: "bs \<noteq> [] \<Longrightarrow> toBigInt bs = Inr (bigEndian bs)"
proof -
  assume ne: "bs \<noteq> []"
  let ?hex = "concat (map (\<lambda>b. [hexDigit (unat (b::byte) div 16), hexDigit (unat b mod 16)]) bs)"
  have "?hex \<noteq> []" using ne by (cases bs) simp_all
  then show ?thesis
    by (simp add: toBigInt_def foldl_append_concat byte_hex BigInt_0x_def
        hex_no_trailing_space parseHex_bytes bigEndian_def)
qed

lemma toBigInt_empty: "toBigInt [] = Inl SyntaxError"
  by (simp add: toBigInt_def BigInt_0x_def)

lemma bigEndian_nonneg: "0 \<le> bigEndian bs"
proof -
  have "0 \<le> acc \<Longrightarrow> 0 \<le> foldl (\<lambda>acc (b::byte). acc * 256 + uint b) acc bs" for acc
    by (induction bs arbitrary: acc) simp_all
  then show ?thesis by (simp add: bigEndian_def)
qed

text \<open>
  Claim C4, as amended. \<open>toBigInt\<close> reads every non-empty byte sequence as a big-endian
  unsigned integer. The empty byte sequence is not mapped to zero: the code evaluates
  \<open>BigInt('0x')\<close>, which throws a SyntaxError.
\<close>

theorem toBigInt_bigEndian:
  "(bs \<noteq> [] \<longrightarrow> toBigInt bs = Inr (bigEndian bs)) \<and> toBigInt [] = Inl SyntaxError"
  using toBigInt_nonempty toBigInt_empty by simp

theorem toBigInt_bigEndian_witness:
  "[1, 2] \<noteq> ([] :: Uint8Array) \<and> toBigInt [1, 2] = Inr 258"
  using toBigInt_bigEndian [of "[1, 2]"] by (simp add: bigEndian_def)

text \<open>
  Claim C4 as stated fails on the empty byte sequence: the result is not zero.
\<close>

theorem toBigInt_empty_counterexample: "toBigInt [] \<noteq> Inr 0"
  by (simp add: toBigInt_def BigInt_0x_def)

text \<open>
  Claim C3 at the input 256 (the bytes \<open>01 00\<close>). \<open>toUint8Array\<close> cuts the hexadecimal text
  \<open>100\<close> into \<open>10\<close> and \<open>0\<close> without padding it to an even length first, so it returns the
  bytes \<open>10 00\<close>: neither round trip gives the value it started from.
\<close>

theorem codec_round_trip_fails:
  "toBigInt [1, 0] = Inr 256 \<and> toUint8Array 256 = [16, 0] \<and> toBigInt [16, 0] = Inr 4096"
  by code_simp

text \<open>
  Claim C5. \<open>powMod\<close> returns 1 for the exponent 0, whatever the base and the modulus.
  With the modulus 0 and any other exponent the first \<open>%\<close> throws a RangeError, so no
  number is returned.
\<close>

theorem powMod_exponent_zero_modulus_zero:
  "powMod base 0 p = Some (Inr 1) \<and> (exp \<noteq> 0 \<longrightarrow> powMod base exp 0 = Some (Inl RangeError))"
  by (simp add: powMod_def powMod_loop.simps [of _ _ 0] powMod_loop.simps [of _ _ _ 0])

theorem powMod_exponent_zero_modulus_zero_witness:
  "powMod 7 0 0 = Some (Inr 1) \<and> (3::int) \<noteq> 0 \<and> powMod 7 3 0 = Some (Inl RangeError)"
  using powMod_exponent_zero_modulus_zero [of 7 0 3] by simp

section \<open>\<open>powMod\<close> returns for a non-negative exponent\<close>

lemma smod_cong: "(k smod l) mod l = k mod (l::int)"
proof -
  have "k smod l = k - k sdiv l * l"
    using sdiv_mult_smod_eq [of k l] by simp
  then show ?thesis
    by (simp add: mod_diff_right_eq [symmetric] del: mod_diff_right_eq)
qed

lemma smod_two: "0 \<le> e \<Longrightarrow> (e smod 2 = 1) = odd (e::int)"
  by (simp add: signed_modulo_int_def sgn_if odd_iff_mod_2_eq_one)

lemma powMod_loop_returns:
  "0 \<le> e \<Longrightarrow> p \<noteq> 0 \<Longrightarrow>
     \<exists>r. powMod_loop result base e p = Some (Inr r) \<and> r mod p = (result * base ^ nat e) mod p"
proof (induction "nat e" arbitrary: e result base rule: less_induct)
  case less
  show ?case
  proof (cases "e = 0")
    case True
    then show ?thesis by (subst powMod_loop.simps) simp
  next
    case False
    let ?r = "if e smod 2 = 1 then (result * base) smod p else result"
    let ?b = "(base * base) smod p"
    let ?e = "drop_bit 1 e"
    from False less.prems have pos: "0 < e" by simp
    then have lt: "nat ?e < nat e" and nn: "0 \<le> ?e"
      by (simp_all add: drop_bit_eq_div)
    from less.hyps [OF lt nn less.prems(2), of ?r ?b]
    obtain r where r: "powMod_loop ?r ?b ?e p = Some (Inr r)"
      and m: "r mod p = (?r * ?b ^ nat ?e) mod p" by blast
    have unfold: "powMod_loop result base e p = powMod_loop ?r ?b ?e p"
      using False less.prems(2) by (subst powMod_loop.simps) simp
    have b: "(?b ^ nat ?e) mod p = ((base * base) ^ nat ?e) mod p"
      using power_mod [of ?b p "nat ?e"] power_mod [of "base * base" p "nat ?e"]
      by (simp only: smod_cong)
    have e2: "nat e = 2 * nat ?e + (if odd e then 1 else 0)"
      using pos by (auto simp: drop_bit_eq_div elim!: oddE evenE)
    have "(?r * ?b ^ nat ?e) mod p = (result * base ^ nat e) mod p"
    proof (cases "odd e")
      case True
      then have "?r = (result * base) smod p"
        using pos by (simp add: smod_two)
      then have "(?r * ?b ^ nat ?e) mod p = ((result * base) * (base * base) ^ nat ?e) mod p"
        using mod_mult_eq [of "(result * base) smod p" p "?b ^ nat ?e"]
          mod_mult_eq [of "result * base" p "(base * base) ^ nat ?e"]
        by (simp only: smod_cong b)
      also have "(result * base) * (base * base) ^ nat ?e = result * base ^ nat e"
        using True by (subst e2) (simp add: power_mult power2_eq_square)
      finally show ?thesis .
    next
      case even: False
      then have "?r = result"
        using pos by (simp add: smod_two)
      then have "(?r * ?b ^ nat ?e) mod p = (result * (base * base) ^ nat ?e) mod p"
        using mod_mult_right_eq [of result "?b ^ nat ?e" p]
          mod_mult_right_eq [of result "(base * base) ^ nat ?e" p]
        by (simp only: b)
      also have "result * (base * base) ^ nat ?e = result * base ^ nat e"
        using even by (subst e2) (simp add: power_mult power2_eq_square)
      finally show ?thesis .
    qed
    with r m unfold show ?thesis by simp
  qed
qed

lemma powMod_returns:
  "0 \<le> e \<Longrightarrow> p \<noteq> 0 \<Longrightarrow> \<exists>r. powMod base e p = Some (Inr r) \<and> r mod p = base ^ nat e mod p"
  using powMod_loop_returns [of e p 1 base] by (simp add: powMod_def)

section \<open>\<open>ServerSetup\<close>\<close>

lemma hexDigit_lower_all: "isLowerHex [hexDigit d]"
proof -
  have "hexDigit d = hexDigit (d mod 16)"
    by (simp add: hexDigit_def)
  moreover have "isLowerHex [hexDigit (d mod 16)]"
    using hexDigit_lower [of "d mod 16"] by (simp add: isLowerHex_def)
  ultimately show ?thesis by simp
qed

lemma isLowerHex_append: "isLowerHex (xs @ ys) = (isLowerHex xs \<and> isLowerHex ys)"
  by (simp add: isLowerHex_def)

lemma toHex_Cons:
  "toHex (b # arr) = [hexDigit (unat b div 16)] @ [hexDigit (unat b mod 16)] @ toHex arr"
  by (simp add: toHex_concat)

lemma toHex_lower: "isLowerHex (toHex arr)"
proof (induction arr)
  case Nil
  show ?case by (simp add: toHex_def isLowerHex_def)
next
  case (Cons b arr)
  then show ?case
    by (simp only: toHex_Cons isLowerHex_append hexDigit_lower_all simp_thms)
qed

lemma toHex_length: "length (toHex arr) = 2 * length arr"
  by (induction arr) (simp_all add: toHex_concat)

lemma toHex_value: "parseHex (toHex arr) 0 = Some (bigEndian arr)"
  by (simp add: toHex_concat parseHex_bytes bigEndian_def)

text \<open>
  The outcomes of \<open>verify\<close> on an instance. It fails with a plain \<open>SRPError\<close> exactly when
  \<open>I\<close> is empty, and with a security violation exactly when \<open>I\<close> is not empty and \<open>s\<close> is
  empty, or the value of \<open>s\<close> is zero, or \<open>v\<close> is zero. In every other case it returns the
  record of \<open>getCredentials\<close>, whose salt is lower-case hexadecimal text with two digits
  per byte and the value of \<open>s\<close>.
\<close>

lemma verify_outcomes:
  "(isProtocolError (verify this) \<longleftrightarrow> ss_I this = [])
   \<and> (isSecurityViolation (verify this) \<longleftrightarrow>
        ss_I this \<noteq> [] \<and> (ss_s this = [] \<or> bigEndian (ss_s this) = 0 \<or> ss_v this = 0))
   \<and> (verify this
         = Inr \<lparr>username = ss_I this, salt = toHex (ss_s this), verifier = toHex_bigint (ss_v this)\<rparr>
        \<longleftrightarrow> ss_I this \<noteq> [] \<and> ss_s this \<noteq> [] \<and> bigEndian (ss_s this) \<noteq> 0 \<and> ss_v this \<noteq> 0)
   \<and> isLowerHex (toHex (ss_s this)) \<and> length (toHex (ss_s this)) = 2 * length (ss_s this)
   \<and> parseHex (toHex (ss_s this)) 0 = Some (bigEndian (ss_s this))
   \<and> isLowerHex (toHex_bigint (ss_v this))"
proof -
  have z: "ss_s this \<noteq> [] \<Longrightarrow> (toBigInt (ss_s this) = Inr 0) = (bigEndian (ss_s this) = 0)"
    by (simp add: toBigInt_nonempty)
  have 1: "isProtocolError (verify this) \<longleftrightarrow> ss_I this = []"
    by (simp add: verify_def isProtocolError_def)
  have 2: "isSecurityViolation (verify this) \<longleftrightarrow>
        ss_I this \<noteq> [] \<and> (ss_s this = [] \<or> bigEndian (ss_s this) = 0 \<or> ss_v this = 0)"
    using z by (auto simp: verify_def isSecurityViolation_def)
  have 3: "verify this
         = Inr \<lparr>username = ss_I this, salt = toHex (ss_s this), verifier = toHex_bigint (ss_v this)\<rparr>
        \<longleftrightarrow> ss_I this \<noteq> [] \<and> ss_s this \<noteq> [] \<and> bigEndian (ss_s this) \<noteq> 0 \<and> ss_v this \<noteq> 0"
    using z by (auto simp: verify_def getCredentials_def)
  show ?thesis
    using 1 2 3 toHex_lower toHex_length toHex_value by (simp add: toHex_bigint_def)
qed

text \<open>
  Claim C7 at the triple \<open>(alice, 01 02, 01 00)\<close>, given as bytes and given as hexadecimal
  text. No check of \<open>verify\<close> fails, and the verifier is 256. The record that \<open>verify\<close>
  returns holds the verifier text \<open>1000\<close>, which is the hexadecimal text of 4096:
  \<open>toHex\<close> of a bigint goes through \<open>toUint8Array\<close>, which cuts \<open>100\<close> into \<open>10\<close> and \<open>0\<close>.
  Given as the text \<open>0102\<close>, the salt is already stored as \<open>10 02\<close> by the constructor and
  is returned as \<open>1002\<close>.
\<close>

theorem verify_returns_wrong_verifier_text:
  "ServerSetup_new \<lparr>config_I = ''alice'', config_s = Bytes [1, 2], config_v = Bytes [1, 0]\<rparr>
     = Inr \<lparr>ss_I = ''alice'', ss_s = [1, 2], ss_v = 256\<rparr>
   \<and> verify \<lparr>ss_I = ''alice'', ss_s = [1, 2], ss_v = 256\<rparr>
       = Inr \<lparr>username = ''alice'', salt = ''0102'', verifier = ''1000''\<rparr>
   \<and> BigInt_0x ''1000'' = Inr 4096
   \<and> ServerSetup_new \<lparr>config_I = ''alice'', config_s = Str ''0102'', config_v = Str ''0100''\<rparr>
       = Inr \<lparr>ss_I = ''alice'', ss_s = [16, 2], ss_v = 256\<rparr>
   \<and> verify \<lparr>ss_I = ''alice'', ss_s = [16, 2], ss_v = 256\<rparr>
       = Inr \<lparr>username = ''alice'', salt = ''1002'', verifier = ''1000''\<rparr>"
  by code_simp

text \<open>
  Claim C9. \<open>getCredentials\<close> has no failing branch and makes none of the checks of
  \<open>verify\<close>. For every instance the username of the record is \<open>I\<close> and the salt is the
  lower-case hexadecimal text of \<open>s\<close>, two digits per byte. The triples with an empty \<open>I\<close>,
  with a zero salt and with a zero verifier, which \<open>verify\<close> rejects, all get their record.
  The verifier of the record is \<open>toHex\<close> of \<open>toUint8Array(v)\<close>: for \<open>v = 256\<close> it is the text
  \<open>1000\<close>, the hexadecimal text of 4096 and not of \<open>v\<close>.
\<close>

theorem getCredentials_unchecked_record:
  "username (getCredentials this) = ss_I this
   \<and> isLowerHex (salt (getCredentials this))
   \<and> length (salt (getCredentials this)) = 2 * length (ss_s this)
   \<and> parseHex (salt (getCredentials this)) 0 = Some (bigEndian (ss_s this))
   \<and> verifier (getCredentials this) = toHex (toUint8Array (ss_v this))
   \<and> getCredentials \<lparr>ss_I = [], ss_s = [1, 2], ss_v = 256\<rparr>
       = \<lparr>username = [], salt = ''0102'', verifier = ''1000''\<rparr>
   \<and> isProtocolError (verify \<lparr>ss_I = [], ss_s = [1, 2], ss_v = 256\<rparr>)
   \<and> getCredentials \<lparr>ss_I = ''alice'', ss_s = [0, 0], ss_v = 256\<rparr>
       = \<lparr>username = ''alice'', salt = ''0000'', verifier = ''1000''\<rparr>
   \<and> isSecurityViolation (verify \<lparr>ss_I = ''alice'', ss_s = [0, 0], ss_v = 256\<rparr>)
   \<and> getCredentials \<lparr>ss_I = ''alice'', ss_s = [1, 2], ss_v = 0\<rparr>
       = \<lparr>username = ''alice'', salt = ''0102'', verifier = ''00''\<rparr>
   \<and> isSecurityViolation (verify \<lparr>ss_I = ''alice'', ss_s = [1, 2], ss_v = 0\<rparr>)
   \<and> toUint8Array 256 = [16, 0]
   \<and> BigInt_0x ''1000'' = Inr 4096"
proof -
  have g: "username (getCredentials this) = ss_I this
      \<and> isLowerHex (salt (getCredentials this))
      \<and> length (salt (getCredentials this)) = 2 * length (ss_s this)
      \<and> parseHex (salt (getCredentials this)) 0 = Some (bigEndian (ss_s this))
      \<and> verifier (getCredentials this) = toHex (toUint8Array (ss_v this))"
    by (simp add: getCredentials_def toHex_lower toHex_length toHex_value toHex_bigint_def)
  have 1: "getCredentials \<lparr>ss_I = [], ss_s = [1, 2], ss_v = 256\<rparr>
       = \<lparr>username = [], salt = ''0102'', verifier = ''1000''\<rparr>"
    by code_simp
  have 2: "isProtocolError (verify \<lparr>ss_I = [], ss_s = [1, 2], ss_v = 256\<rparr>)"
    by code_simp
  have 3: "getCredentials \<lparr>ss_I = ''alice'', ss_s = [0, 0], ss_v = 256\<rparr>
       = \<lparr>username = ''alice'', salt = ''0000'', verifier = ''1000''\<rparr>"
    by code_simp
  have 4: "isSecurityViolation (verify \<lparr>ss_I = ''alice'', ss_s = [0, 0], ss_v = 256\<rparr>)"
    by code_simp
  have 5: "getCredentials \<lparr>ss_I = ''alice'', ss_s = [1, 2], ss_v = 0\<rparr>
       = \<lparr>username = ''alice'', salt = ''0102'', verifier = ''00''\<rparr>"
    by code_simp
  have 6: "isSecurityViolation (verify \<lparr>ss_I = ''alice'', ss_s = [1, 2], ss_v = 0\<rparr>)"
    by code_simp
  have 7: "toUint8Array 256 = [16, 0]"
    by code_simp
  have 8: "BigInt_0x ''1000'' = Inr 4096"
    by code_simp
  from g 1 2 3 4 5 6 7 8 show ?thesis
    by (simp only: simp_thms)
qed

section \<open>\<open>ClientAuthenticate\<close>\<close>

lemma doesMatch_loop_iff:
  "length a = length b \<Longrightarrow>
     doesMatch_loop a b i = (\<forall>j. i \<le> j \<and> j < length a \<longrightarrow> a ! j = b ! j)"
proof (induction a b i rule: doesMatch_loop.induct)
  case (1 a b i)
  show ?case
  proof (cases "i < length a")
    case False
    then show ?thesis by (subst doesMatch_loop.simps) auto
  next
    case True
    show ?thesis
    proof (cases "a ! i = b ! i")
      case False
      with True show ?thesis
        by (subst doesMatch_loop.simps) auto
    next
      case eq: True
      have "doesMatch_loop a b i = doesMatch_loop a b (i + 1)"
        using True eq by (subst doesMatch_loop.simps) simp
      also have "\<dots> = (\<forall>j. i + 1 \<le> j \<and> j < length a \<longrightarrow> a ! j = b ! j)"
        using "1.IH" [OF True _ "1.prems"] eq by simp
      also have "\<dots> = (\<forall>j. i \<le> j \<and> j < length a \<longrightarrow> a ! j = b ! j)"
        using eq by (metis Suc_eq_plus1 Suc_leI le_neq_implies_less Suc_leD)
      finally show ?thesis .
    qed
  qed
qed

lemma doesMatch_eq: "doesMatch a b = (a = b)"
  by (auto simp: doesMatch_def doesMatch_loop_iff list_eq_iff_nth_eq)


lemma demoClient_A: "ca_A demoClient = None"
  by (simp add: demoClient_def ClientAuthenticate_new_def)

text \<open>
  Claim C8. On an instance without \<open>A\<close>, \<open>exchange\<close> fails with an \<open>SRPError\<close> and leaves
  every field as it was.
\<close>

theorem exchange_before_init:
  "ca_A this = None \<Longrightarrow>
     exchange hashBuffer B s this = Some (Inl (SRPError ''A must be set before exchanging B''), this)"
  by (simp add: exchange_def falsy_def)

text \<open>
  The freshly constructed client has no \<open>A\<close>.
\<close>

theorem exchange_before_init_witness:
  "ca_A demoClient = None \<and>
   exchange sumHashBuffer (Bytes [3]) (Bytes [1, 2]) demoClient
     = Some (Inl (SRPError ''A must be set before exchanging B''), demoClient)"
  using exchange_before_init [OF demoClient_A, of sumHashBuffer "Bytes [3]" "Bytes [1, 2]"]
    demoClient_A by simp

text \<open>
  Claim C1 on the code. With \<open>A\<close>, \<open>M1\<close> and \<open>K\<close> set, \<open>verifyServer\<close> throws the security
  violation exactly when \<open>M2\<close> equals the expected value \<open>H(A, M1, K)\<close>, and returns without
  error exactly when it differs: the condition \<open>if (doesMatch(expected, M2))\<close> is the
  opposite of what the documentation of the method says.
\<close>

theorem verifyServer_polarity:
  assumes "ca_A this = Some A" and "A \<noteq> 0"
    and "ca_M1 this = Some M1" and "ca_K this = Some K"
    and "hash hashBuffer (ca_algorithm this) [Bytes (toUint8Array A), Bytes M1, Bytes K] = Inr expected"
    and "decode M2 = Inr M2b"
  shows "(isSecurityViolation (verifyServer hashBuffer M2 this) \<longleftrightarrow> M2b = expected)
       \<and> (verifyServer hashBuffer M2 this = Inr () \<longleftrightarrow> M2b \<noteq> expected)"
  using assms
  by (simp add: verifyServer_def falsy_def doesMatch_eq isSecurityViolation_def)

lemma demoAuthenticated_fields:
  "ca_A demoAuthenticated = Some 17" "ca_M1 demoAuthenticated = Some [141]"
  "ca_K demoAuthenticated = Some [26]"
  "hash sumHashBuffer (ca_algorithm demoAuthenticated)
     [Bytes (toUint8Array 17), Bytes [141], Bytes [26]] = Inr [201]"
  by code_simp+

text \<open>
  The authenticated client expects \<open>c9\<close>: that proof is rejected, the proof \<open>c8\<close> passes.
\<close>

theorem verifyServer_polarity_witness:
  "isSecurityViolation (verifyServer sumHashBuffer (Bytes [201]) demoAuthenticated)
   \<and> verifyServer sumHashBuffer (Bytes [200]) demoAuthenticated = Inr ()
   \<and> H sumHashBuffer (ca_algorithm demoAuthenticated)
        [Bytes (toUint8Array 17), Bytes [141], Bytes [26]] = [201]"
proof -
  have d: "decode (Bytes b) = Inr b" for b
    by (simp add: decode_def)
  have "(17::int) \<noteq> 0" by simp
  note v = verifyServer_polarity [OF demoAuthenticated_fields(1) this
      demoAuthenticated_fields(2) demoAuthenticated_fields(3) demoAuthenticated_fields(4) d]
  show ?thesis
    using v [of "[201]"] v [of "[200]"] demoAuthenticated_fields(4) by (simp add: H_def)
qed

text \<open>
  Claim C10. \<open>powMod(-2, 1, 5)\<close> returns \<open>-2\<close>: the \<open>%\<close> of bigints keeps the sign of the
  dividend. In \<open>exchange\<close> with \<open>B = 02\<close> the base \<open>B - k * g^x\<close> is negative
  (\<open>k = 45\<close>, \<open>g^x mod N = 17\<close>) and the session secret \<open>S\<close> becomes \<open>-2\<close>.
\<close>

theorem powMod_negative_result:
  "powMod (- 2) 1 5 = Some (Inr (- 2))
   \<and> map_option (\<lambda>r. (fst r, ca_S (snd r)))
        (exchange sumHashBuffer (Bytes [2]) (Bytes [1, 2]) demoInitialized)
       = Some (Inr (), Some (- 2))"
  by code_simp

lemma hash_supported:
  "algorithm \<in> set algorithms \<Longrightarrow> hash hashBuffer algorithm input = Inr (H hashBuffer algorithm input)"
  by (auto simp: algorithms_def H_def hash_def Let_def)

lemma H_nonempty:
  assumes "algorithm \<in> set algorithms" and "\<And>hasher buffer. hashBuffer hasher buffer \<noteq> []"
  shows "H hashBuffer algorithm input \<noteq> []"
  using assms by (auto simp: algorithms_def H_def hash_def Let_def)

lemma hash_toBigInt:
  assumes "algorithm \<in> set algorithms" and "\<And>hasher buffer. hashBuffer hasher buffer \<noteq> []"
  shows "(case hash hashBuffer algorithm input of Inl e \<Rightarrow> Inl e | Inr d \<Rightarrow> toBigInt d)
           = Inr (bigEndian (H hashBuffer algorithm input))"
  using assms by (simp add: hash_supported H_nonempty toBigInt_nonempty)

lemma computeU_value:
  assumes "ca_A this = Some A" and "A \<noteq> 0" and "ca_B this = Some Bv" and "Bv \<noteq> 0"
    and "ca_algorithm this \<in> set algorithms" and "\<And>hasher buffer. hashBuffer hasher buffer \<noteq> []"
  shows "computeU hashBuffer this
           = Inr (bigEndian (H hashBuffer (ca_algorithm this)
                    [Bytes (toUint8Array A), Bytes (toUint8Array Bv)]))"
  using assms by (simp add: computeU_def falsy_def hash_toBigInt)

lemma computeK_value:
  assumes "ca_algorithm this \<in> set algorithms" and "\<And>hasher buffer. hashBuffer hasher buffer \<noteq> []"
  shows "computeK hashBuffer this
           = Inr (bigEndian (H hashBuffer (ca_algorithm this)
                    [Bytes (toUint8Array (group_N (ca_group this))),
                     Bytes (toUint8Array (group_g (ca_group this)))]))"
  using assms by (simp add: computeK_def hash_toBigInt)

lemma computeX_value:
  assumes "ca_s this = Some sv" and "sv \<noteq> 0"
    and "ca_algorithm this \<in> set algorithms" and "\<And>hasher buffer. hashBuffer hasher buffer \<noteq> []"
  shows "computeX hashBuffer this
           = Inr (bigEndian (H hashBuffer (ca_algorithm this)
                    [Bytes (toUint8Array sv),
                     Bytes (H hashBuffer (ca_algorithm this)
                              [Bytes (ca_I this), Str '':'', Bytes (ca_p this)])]))"
  using assms by (simp add: computeX_def falsy_def hash_supported H_nonempty toBigInt_nonempty)


text \<open>
  What \<open>exchange\<close> does on an input that passes every guard: it returns without error and
  has stored \<open>B\<close>, \<open>s\<close>, \<open>u\<close>, \<open>S\<close> and \<open>K\<close>. Every integer enters a hash as the bytes
  that \<open>toUint8Array\<close> gives for it; for the salt that is the integer \<open>this.s\<close> read from
  the received bytes.
\<close>

lemma exchange_returns:
  fixes this :: ClientAuthenticate and hashBuffer :: hashBuffer
  defines "alg \<equiv> ca_algorithm this"
    and "N \<equiv> group_N (ca_group this)"
    and "g \<equiv> group_g (ca_group this)"
  assumes A: "ca_A this = Some A" "A \<noteq> 0"
    and a: "ca_a this = Some a" "0 < a"
    and alg: "alg \<in> set algorithms"
    and digest: "\<And>hasher buffer. hashBuffer hasher buffer \<noteq> []"
    and N: "N \<noteq> 0"
    and B: "decode B = Inr Bb" "Bb \<noteq> []" "bigEndian Bb \<noteq> 0"
    and s: "decode s = Inr sb" "sb \<noteq> []" "bigEndian sb \<noteq> 0"
    and u: "u = bigEndian (H hashBuffer alg [Bytes (toUint8Array A), Bytes (toUint8Array (bigEndian Bb))])"
           "u \<noteq> 0"
    and k: "k = bigEndian (H hashBuffer alg [Bytes (toUint8Array N), Bytes (toUint8Array g)])"
    and x: "x = bigEndian (H hashBuffer alg
                   [Bytes (toUint8Array (bigEndian sb)),
                    Bytes (H hashBuffer alg [Bytes (ca_I this), Str '':'', Bytes (ca_p this)])])"
  shows "\<exists>gx S. powMod g x N = Some (Inr gx)
           \<and> powMod (bigEndian Bb - k * gx) (a + u * x) N = Some (Inr S)
           \<and> exchange hashBuffer B s this
               = Some (Inr (), this\<lparr>ca_B := Some (bigEndian Bb), ca_s := Some (bigEndian sb),
                                    ca_u := Some u, ca_S := Some S,
                                    ca_K := Some (H hashBuffer alg [Bytes (toUint8Array S)])\<rparr>)"
proof -
  let ?this2 = "this\<lparr>ca_B := Some (bigEndian Bb), ca_s := Some (bigEndian sb)\<rparr>"
  let ?this3 = "?this2\<lparr>ca_u := Some u\<rparr>"
  have alg3: "ca_algorithm ?this3 \<in> set algorithms"
    using alg by (simp add: alg_def)
  have cu: "computeU hashBuffer ?this2 = Inr u"
    using computeU_value [of ?this2 A "bigEndian Bb" hashBuffer] A B alg digest
    by (simp add: u alg_def)
  have ck: "computeK hashBuffer ?this3 = Inr k"
    using computeK_value [of ?this3 hashBuffer] alg3 digest
    by (simp add: k alg_def N_def g_def)
  have cx: "computeX hashBuffer ?this3 = Inr x"
    using computeX_value [of ?this3 "bigEndian sb" hashBuffer] s alg3 digest
    by (simp add: x alg_def)
  have x0: "0 \<le> x" and u0: "0 \<le> u"
    by (simp_all add: x u bigEndian_nonneg)
  obtain gx where gx: "powMod g x N = Some (Inr gx)"
    using powMod_returns [OF x0 N] by blast
  have "0 \<le> a + u * x"
    using a x0 u0 by simp
  then obtain S where S: "powMod (bigEndian Bb - k * gx) (a + u * x) N = Some (Inr S)"
    using powMod_returns [OF _ N] by blast
  have cs: "computeS hashBuffer ?this3 = Some (Inr S)"
    using a B u ck cx gx S by (simp add: computeS_def falsy_def N_def g_def)
  have hk: "hash hashBuffer alg [Bytes (toUint8Array S)] = Inr (H hashBuffer alg [Bytes (toUint8Array S)])"
    using alg by (rule hash_supported)
  have "exchange hashBuffer B s this
      = Some (Inr (), ?this3\<lparr>ca_S := Some S, ca_K := Some (H hashBuffer alg [Bytes (toUint8Array S)])\<rparr>)"
    using A B s u cu cs hk
    by (simp add: exchange_def falsy_def toBigInt_nonempty alg_def)
  with gx S show ?thesis by simp
qed



lemma demoInitialized_eq:
  "demoInitialized =
     \<lparr>ca_I = [97, 108, 105, 99, 101],
      ca_p = [112, 97, 115, 115, 119, 111, 114, 100, 49, 50, 51],
      ca_group = \<lparr>group_N = 23, group_g = 5\<rparr>, ca_algorithm = ''SHA-256'',
      ca_a = Some 7, ca_A = Some 17, ca_B = None, ca_u = None, ca_s = None,
      ca_S = None, ca_K = None, ca_M1 = None\<rparr>"
  by code_simp

text \<open>
  Claim C2, as amended. When \<open>exchange\<close> is called after \<open>init\<close> with a \<open>B\<close> that decodes
  to the value zero and an \<open>s\<close> that decodes, it fails with a plain \<open>SRPError\<close>; it has
  then stored \<open>B\<close> and \<open>s\<close>, and \<open>u\<close>, \<open>S\<close> and \<open>K\<close> are as they were.
\<close>

theorem exchange_zero_B:
  assumes "ca_A this = Some A" and "A \<noteq> 0"
    and "decode B = Inr Bb" and "Bb \<noteq> []" and "bigEndian Bb = 0"
    and "decode s = Inr sb" and "sb \<noteq> []"
  shows "exchange hashBuffer B s this
           = Some (Inl (SRPError (''Invalid server-supplied public key: B = 0'' @ [CHR 0x0A] @
                      ''This is probably a misconfiguration, but possibly a MitM attack!'')),
                   this\<lparr>ca_B := Some 0, ca_s := Some (bigEndian sb)\<rparr>)"
  using assms by (simp add: exchange_def falsy_def toBigInt_nonempty)

text \<open>
  The initialized client with \<open>B\<close> given as the hexadecimal text \<open>00\<close>.
\<close>

theorem exchange_zero_B_witness:
  "exchange sumHashBuffer (Str ''00'') (Bytes [1, 2]) demoInitialized
     = Some (Inl (SRPError (''Invalid server-supplied public key: B = 0'' @ [CHR 0x0A] @
                      ''This is probably a misconfiguration, but possibly a MitM attack!'')),
             demoInitialized\<lparr>ca_B := Some 0, ca_s := Some 258\<rparr>)"
proof -
  have 1: "ca_A demoInitialized = Some 17" by (simp add: demoInitialized_eq)
  have 2: "(17::int) \<noteq> 0" by simp
  have 3: "decode (Str ''00'') = Inr [0]" by code_simp
  have 4: "[0] \<noteq> ([] :: Uint8Array)" by simp
  have 5: "bigEndian [0] = 0" by (simp add: bigEndian_def)
  have 6: "decode (Bytes [1, 2]) = Inr [1, 2]" by (simp add: decode_def)
  have 7: "[1, 2] \<noteq> ([] :: Uint8Array)" by simp
  show ?thesis
    using exchange_zero_B [OF 1 2 3 4 5 6 7, of sumHashBuffer] by (simp add: bigEndian_def)
qed

text \<open>
  Claim C2 as stated fails. The only test on \<open>B\<close> is \<open>this.B === 0n\<close>: with \<open>B = N = 23\<close>
  the exchange runs to its end without any error, and the error for \<open>B = 0\<close> is no
  security violation.
\<close>

theorem exchange_accepts_B_equal_N:
  "group_N (ca_group demoInitialized) = 23
   \<and> map_option fst (exchange sumHashBuffer (Bytes [23]) (Bytes [1, 2]) demoInitialized)
       = Some (Inr ())
   \<and> map_option (isSecurityViolation \<circ> fst)
        (exchange sumHashBuffer (Bytes [0]) (Bytes [1, 2]) demoInitialized) = Some False"
  by code_simp


text \<open>
  Claim C6 on the code, for the salt \<open>01 02\<close> and every hash function. \<open>exchange\<close> keeps the
  salt as the integer 258 and \<open>computeX\<close> hashes \<open>toUint8Array(258n)\<close>, the bytes \<open>10 02\<close>:
  \<open>x\<close> is \<open>H(10 02 || H(I || ":" || p))\<close> and not \<open>H(s || H(I || ":" || p))\<close>. The rest is as
  the claim says: \<open>k = H(N, g)\<close>, \<open>S\<close> is what \<open>powMod(B - k * powMod(g, x, N), a + u * x, N)\<close>
  returns on unbounded integers, and \<open>K = H(S)\<close>.
\<close>

theorem exchange_hashes_reencoded_salt:
  fixes this :: ClientAuthenticate and hashBuffer :: hashBuffer
  defines "alg \<equiv> ca_algorithm this"
    and "N \<equiv> group_N (ca_group this)"
    and "g \<equiv> group_g (ca_group this)"
  assumes A: "ca_A this = Some A" "A \<noteq> 0"
    and a: "ca_a this = Some a" "0 < a"
    and alg: "alg \<in> set algorithms"
    and digest: "\<And>hasher buffer. hashBuffer hasher buffer \<noteq> []"
    and N: "N \<noteq> 0"
    and B: "decode B = Inr Bb" "Bb \<noteq> []" "bigEndian Bb \<noteq> 0"
    and s: "decode s = Inr [1, 2]"
    and u: "u = bigEndian (H hashBuffer alg [Bytes (toUint8Array A), Bytes (toUint8Array (bigEndian Bb))])"
           "u \<noteq> 0"
    and k: "k = bigEndian (H hashBuffer alg [Bytes (toUint8Array N), Bytes (toUint8Array g)])"
    and x: "x = bigEndian (H hashBuffer alg
                   [Bytes [16, 2],
                    Bytes (H hashBuffer alg [Bytes (ca_I this), Str '':'', Bytes (ca_p this)])])"
  shows "toUint8Array (bigEndian [1, 2]) = [16, 2]
       \<and> (\<exists>gx S. powMod g x N = Some (Inr gx)
           \<and> powMod (bigEndian Bb - k * gx) (a + u * x) N = Some (Inr S)
           \<and> exchange hashBuffer B s this
               = Some (Inr (), this\<lparr>ca_B := Some (bigEndian Bb), ca_s := Some 258,
                                    ca_u := Some u, ca_S := Some S,
                                    ca_K := Some (H hashBuffer alg [Bytes (toUint8Array S)])\<rparr>))"
proof -
  have r: "toUint8Array (bigEndian [1, 2]) = [16, 2]"
    by code_simp
  have v: "bigEndian [1, 2] = 258"
    by (simp add: bigEndian_def)
  have ne: "[1, 2] \<noteq> ([] :: Uint8Array)" "bigEndian [1, 2] \<noteq> 0"
    by (simp_all add: v)
  have x': "x = bigEndian (H hashBuffer (ca_algorithm this)
                   [Bytes (toUint8Array (bigEndian [1, 2])),
                    Bytes (H hashBuffer (ca_algorithm this)
                             [Bytes (ca_I this), Str '':'', Bytes (ca_p this)])])"
    using x by (simp only: r alg_def)
  note e = exchange_returns [OF A a alg [unfolded alg_def] digest N [unfolded N_def] B s ne
      u(1) [unfolded alg_def] u(2) k [unfolded alg_def N_def g_def] x']
  from e r show ?thesis
    by (simp only: v alg_def N_def g_def simp_thms)
qed

text \<open>
  The initialized client over \<open>N = 23\<close>, \<open>g = 5\<close> with \<open>B = 03\<close> and the salt \<open>01 02\<close>. The
  code computes \<open>x = 117\<close> and \<open>S = 9\<close>. The hash of the salt as received gives \<open>x = 102\<close>,
  which is also what \<open>ClientSetup.computeX\<close> computes for this user and salt, and with it
  \<open>S\<close> would be \<open>-11\<close>.
\<close>

theorem exchange_hashes_reencoded_salt_witness:
  "exchange sumHashBuffer (Bytes [3]) (Bytes [1, 2]) demoInitialized
       = Some (Inr (), demoInitialized\<lparr>ca_B := Some 3, ca_s := Some 258, ca_u := Some 37,
                                         ca_S := Some 9, ca_K := Some [26]\<rparr>)
   \<and> powMod 5 117 23 = Some (Inr 17)
   \<and> powMod (3 - 45 * 17) (7 + 37 * 117) 23 = Some (Inr 9)
   \<and> bigEndian (H sumHashBuffer SHA_256
        [Bytes [16, 2], Bytes (H sumHashBuffer SHA_256 [Bytes (ca_I demoInitialized), Str '':'',
           Bytes (ca_p demoInitialized)])]) = 117
   \<and> bigEndian (H sumHashBuffer SHA_256
        [Bytes [1, 2], Bytes (H sumHashBuffer SHA_256 [Bytes (ca_I demoInitialized), Str '':'',
           Bytes (ca_p demoInitialized)])]) = 102
   \<and> ClientSetup_computeX sumHashBuffer demoSetup = Inr 102
   \<and> powMod 5 102 23 = Some (Inr 13)
   \<and> powMod (3 - 45 * 13) (7 + 37 * 102) 23 = Some (Inr (- 11))"
proof -
  have A: "ca_A demoInitialized = Some 17" "(17::int) \<noteq> 0"
    and a: "ca_a demoInitialized = Some 7" "(0::int) < 7"
    and alg: "ca_algorithm demoInitialized \<in> set algorithms"
    and N: "group_N (ca_group demoInitialized) \<noteq> 0"
    by (simp_all add: demoInitialized_eq algorithms_def SHA_256_def)
  have digest: "\<And>hasher buffer. sumHashBuffer hasher buffer \<noteq> []"
    by (simp add: sumHashBuffer_def)
  have B: "decode (Bytes [3]) = Inr [3]" "[3] \<noteq> ([] :: Uint8Array)" "bigEndian [3] \<noteq> 0"
    and s: "decode (Bytes [1, 2]) = Inr [1, 2]"
    by (simp_all add: decode_def bigEndian_def)
  have v: "bigEndian [3] = 3"
    by (simp add: bigEndian_def)
  have u: "(37::int) = bigEndian (H sumHashBuffer (ca_algorithm demoInitialized)
               [Bytes (toUint8Array 17), Bytes (toUint8Array (bigEndian [3]))])"
    unfolding demoInitialized_eq by code_simp
  have k: "(45::int) = bigEndian (H sumHashBuffer (ca_algorithm demoInitialized)
               [Bytes (toUint8Array (group_N (ca_group demoInitialized))),
                Bytes (toUint8Array (group_g (ca_group demoInitialized)))])"
    unfolding demoInitialized_eq by code_simp
  have x: "(117::int) = bigEndian (H sumHashBuffer (ca_algorithm demoInitialized)
               [Bytes [16, 2],
                Bytes (H sumHashBuffer (ca_algorithm demoInitialized)
                  [Bytes (ca_I demoInitialized), Str '':'', Bytes (ca_p demoInitialized)])])"
    unfolding demoInitialized_eq by code_simp
  have K: "H sumHashBuffer (ca_algorithm demoInitialized) [Bytes (toUint8Array 9)] = [26]"
    unfolding demoInitialized_eq by code_simp
  have p1: "powMod 5 117 23 = Some (Inr 17)"
    by code_simp
  have p2: "powMod (3 - 45 * 17) (7 + 37 * 117) 23 = Some (Inr 9)"
    by code_simp
  have g: "group_g (ca_group demoInitialized) = 5" "group_N (ca_group demoInitialized) = 23"
    by (simp_all add: demoInitialized_eq)
  have c1: "bigEndian (H sumHashBuffer SHA_256
        [Bytes [16, 2], Bytes (H sumHashBuffer SHA_256 [Bytes (ca_I demoInitialized), Str '':'',
           Bytes (ca_p demoInitialized)])]) = 117"
    unfolding demoInitialized_eq by code_simp
  have c2: "bigEndian (H sumHashBuffer SHA_256
        [Bytes [1, 2], Bytes (H sumHashBuffer SHA_256 [Bytes (ca_I demoInitialized), Str '':'',
           Bytes (ca_p demoInitialized)])]) = 102"
    unfolding demoInitialized_eq by code_simp
  have c3: "ClientSetup_computeX sumHashBuffer demoSetup = Inr 102"
    by code_simp
  have c4: "powMod 5 102 23 = Some (Inr 13)"
    by code_simp
  have c5: "powMod (3 - 45 * 13) (7 + 37 * 102) 23 = Some (Inr (- 11))"
    by code_simp
  from exchange_hashes_reencoded_salt [OF A a alg digest N B s u _ k x]
  obtain gx S where "powMod 5 117 23 = Some (Inr gx)"
    and "powMod (3 - 45 * gx) (7 + 37 * 117) 23 = Some (Inr S)"
    and "exchange sumHashBuffer (Bytes [3]) (Bytes [1, 2]) demoInitialized
       = Some (Inr (), demoInitialized\<lparr>ca_B := Some 3, ca_s := Some 258, ca_u := Some 37,
            ca_S := Some S,
            ca_K := Some (H sumHashBuffer (ca_algorithm demoInitialized) [Bytes (toUint8Array S)])\<rparr>)"
    unfolding v g by auto
  with p1 p2 K have "exchange sumHashBuffer (Bytes [3]) (Bytes [1, 2]) demoInitialized
       = Some (Inr (), demoInitialized\<lparr>ca_B := Some 3, ca_s := Some 258, ca_u := Some 37,
                                         ca_S := Some 9, ca_K := Some [26]\<rparr>)"
    by simp
  with p1 p2 c1 c2 c3 c4 c5 show ?thesis
    by (simp only: simp_thms)
qed

end
